theory Spec2Isabelle
  imports Main
begin

section \<open>Data model\<close>

text \<open>
  Identifiers (MongoDB ObjectIds, user identifiers of the socket handshake, socket ids and
  room names) are JavaScript strings. A \<open>Date\<close> is a number of milliseconds.
\<close>

type_synonym object_id = string
type_synonym socket_id = string
type_synonym timestamp = nat

text \<open>The \<open>status\<close> enum of \<open>helpRequestSchema\<close>.\<close>

datatype request_status = Open | In_progress | Completed | Cancelled

text \<open>
  \<open>helpRequestSchema\<close> (models/HelpRequest): an optional path of the schema is an
  \<open>option\<close>; \<open>status\<close> defaults to \<open>open\<close>, \<open>urgency\<close> to \<open>medium\<close>,
  \<open>isRemote\<close> to \<open>true\<close>.
\<close>

record help_request =
  requester :: object_id
  category :: object_id
  title :: string
  description :: string
  skillsNeeded :: "string list"
  urgency :: string
  estimatedDuration :: "string option"
  location :: "string option"
  isRemote :: bool
  budgetMin :: "int option"
  budgetMax :: "int option"
  status :: request_status
  helper :: "object_id option"
  acceptedAt :: "timestamp option"
  completedAt :: "timestamp option"

text \<open>The fields of a User document that the handlers read (\<open>populate\<close>, \<open>findById\<close>).\<close>

record user =
  name :: string
  email :: string
  picture :: string

text \<open>\<open>messageSchema\<close> (models/Message), with the \<open>_id\<close> the document is saved under.\<close>

record message_row =
  mid :: object_id
  request :: object_id
  sender :: object_id
  content :: string
  messageType :: string
  fileName :: "string option"
  fileSize :: "nat option"
  isRead :: bool

text \<open>
  The object the gateway broadcasts as a \<open>message\<close> event and the REST route returns:
  \<open>{requestId, senderId, senderName, senderPicture, content, messageType, fileName,
  fileSize, createdAt, isRead, _id}\<close>.
\<close>

record chat_message =
  msg_id :: object_id
  msg_requestId :: object_id
  msg_senderId :: object_id
  msg_senderName :: string
  msg_senderPicture :: string
  msg_content :: string
  msg_messageType :: string
  msg_fileName :: "string option"
  msg_fileSize :: "nat option"
  msg_createdAt :: timestamp
  msg_isRead :: bool

text \<open>Events the server emits to a connection.\<close>

datatype server_event =
    Message_event chat_message
  | Notification_event object_id string string timestamp
  | Typing_event object_id object_id string bool timestamp
  | User_joined_room object_id object_id timestamp
  | User_left_room object_id object_id timestamp
  | Error_event string
  | Request_accepted object_id object_id object_id
  | Request_status_updated object_id request_status object_id object_id

text \<open>Lines written to the console, one constructor for each \<open>console.log\<close>/\<open>console.error\<close>.\<close>

datatype log_line =
    Log_connected object_id socket_id
  | Log_joining object_id object_id
  | Log_request_not_found object_id
  | Log_not_authorized object_id object_id
  | Log_joined object_id object_id
  | Log_join_error
  | Log_leaving object_id object_id
  | Log_left object_id object_id
  | Log_message_from object_id object_id
  | Log_user_not_found object_id
  | Log_message_sent object_id
  | Log_send_error
  | Log_typing object_id
  | Log_disconnected object_id
  | Log_emitted string
  | Log_email_failed string
  | Log_route_error string

record mail =
  mail_to :: string
  mail_subject :: string

datatype body =
    Error_body string
  | Validation_errors
  | Request_body object_id help_request
  | Message_body chat_message

text \<open>
  What a handler does to the outside, in the order it does it: an event delivered to one
  connection, \<open>io.emit\<close> to every connection, a mail handed to the transporter, a console
  line, the HTTP response (status code and body).
\<close>

datatype effect =
    Emit socket_id server_event
  | Emit_all server_event
  | Send_mail mail
  | Console log_line
  | Respond nat body

text \<open>
  The server: the four collections the handlers use, the live sockets with their
  \<open>socket.userId\<close>, the rooms of the socket.io adapter (room name to the sockets in it),
  and the three presence maps \<open>connectedUsers\<close>, \<open>userRooms\<close>, \<open>roomUsers\<close>.
  A JavaScript \<open>Set\<close> is a list without duplicates in insertion order (the order
  \<open>forEach\<close> visits); a \<open>Map\<close> is a partial function.
\<close>

record server =
  requests :: "object_id \<rightharpoonup> help_request"
  users :: "object_id \<rightharpoonup> user"
  categories :: "object_id set"
  messages :: "message_row list"
  sockets :: "socket_id \<rightharpoonup> object_id"
  io_rooms :: "object_id \<Rightarrow> socket_id list"
  connectedUsers :: "object_id \<rightharpoonup> socket_id"
  userRooms :: "object_id \<rightharpoonup> object_id list"
  roomUsers :: "object_id \<rightharpoonup> object_id list"

definition init :: server where
  "init = \<lparr>requests = Map.empty, users = Map.empty, categories = {}, messages = [],
     sockets = Map.empty, io_rooms = (\<lambda>_. []), connectedUsers = Map.empty,
     userRooms = Map.empty, roomUsers = Map.empty\<rparr>"

text \<open>\<open>Set.prototype.add\<close> and \<open>Set.prototype.delete\<close>.\<close>

definition set_add :: "'a \<Rightarrow> 'a list \<Rightarrow> 'a list" where
  "set_add x xs = (if x \<in> set xs then xs else xs @ [x])"

definition set_delete :: "'a \<Rightarrow> 'a list \<Rightarrow> 'a list" where
  "set_delete x xs = removeAll x xs"

section \<open>The environment of a handler\<close>

text \<open>
  The awaited calls of a handler. Each can reject (connection loss, cast or validation
  error of the driver); which ones do is given by the environment.
\<close>

datatype db_call =
    Find_request | Find_user | Find_category | Find_recipient
  | Save_request | Save_message | Refetch_request

record jwt_user =
  jwt_id :: object_id
  jwt_name :: string

text \<open>
  \<open>now\<close> is \<open>new Date()\<close>, \<open>fresh_id\<close> the ObjectId generated for a new document,
  \<open>mail_rejects\<close> says for which recipient \<open>transporter.sendMail\<close> rejects, and
  \<open>jwt_verify\<close> is \<open>jwt.verify\<close> with the server's secret (\<open>None\<close> when it throws).
\<close>

record env =
  now :: timestamp
  fresh_id :: object_id
  db_rejects :: "db_call \<Rightarrow> bool"
  mail_rejects :: "string \<Rightarrow> bool"
  jwt_verify :: "string \<Rightarrow> jwt_user option"

section \<open>REST handlers of the request lifecycle\<close>

text \<open>
  \<open>authenticateToken\<close>: the bearer token of the Authorization header (\<open>None\<close> when
  the header is missing or has no second word). A missing or empty token is 401, a token
  \<open>jwt.verify\<close> refuses is 403, otherwise \<open>req.user\<close> is the decoded payload.
\<close>

definition authenticateToken :: "env \<Rightarrow> string option \<Rightarrow> (nat \<times> body) + jwt_user" where
  "authenticateToken e token =
     (case token of
        None \<Rightarrow> Inl (401, Error_body ''Access token required'')
      | Some t \<Rightarrow>
          if t = [] then Inl (401, Error_body ''Access token required'')
          else (case jwt_verify e t of
                  None \<Rightarrow> Inl (403, Error_body ''Invalid or expired token'')
                | Some u \<Rightarrow> Inr u))"

text \<open>The validators of express-validator used by the routes: \<open>trim()\<close> and \<open>isMongoId()\<close>.\<close>

definition is_space :: "char \<Rightarrow> bool" where
  "is_space c = (c \<in> set [CHR '' '', CHR 0x09, CHR 0x0A, CHR 0x0B, CHR 0x0C, CHR 0x0D])"

definition trim :: "string \<Rightarrow> string" where
  "trim s = rev (dropWhile is_space (rev (dropWhile is_space s)))"

definition is_hex :: "char \<Rightarrow> bool" where
  "is_hex c = (c \<in> set ''0123456789abcdefABCDEF'')"

definition isMongoId :: "string \<Rightarrow> bool" where
  "isMongoId s = (length s = 24 \<and> list_all is_hex s)"

text \<open>
  A \<open>try { await sendEmail(..); await sendEmail(..) } catch (e) { console.error(..) }\<close>
  block: the mails go out in order until the transporter rejects one, which is logged and
  ends the block.
\<close>

fun try_send :: "env \<Rightarrow> string \<Rightarrow> mail list \<Rightarrow> effect list" where
  "try_send e what [] = []"
| "try_send e what (m # ms) =
     (if mail_rejects e (mail_to m) then [Console (Log_email_failed what)]
      else Send_mail m # try_send e what ms)"

text \<open>The body of \<open>POST /requests\<close>; an absent optional field is \<open>None\<close>.\<close>

record create_body =
  cb_title :: string
  cb_description :: string
  cb_categoryId :: string
  cb_skillsNeeded :: "string list option"
  cb_urgency :: "string option"
  cb_estimatedDuration :: "string option"
  cb_location :: "string option"
  cb_isRemote :: "bool option"
  cb_budgetMin :: "int option"
  cb_budgetMax :: "int option"

text \<open>
  \<open>new HelpRequest({...})\<close> of \<open>POST /requests\<close>: \<open>skillsNeeded || []\<close>,
  \<open>urgency || 'medium'\<close>, \<open>isRemote !== false\<close>; \<open>status\<close>, \<open>helper\<close>,
  \<open>acceptedAt\<close> and \<open>completedAt\<close> are not passed, so the schema's defaults apply.
\<close>

definition new_request :: "object_id \<Rightarrow> create_body \<Rightarrow> help_request" where
  "new_request uid b =
     \<lparr>requester = uid, category = cb_categoryId b, title = trim (cb_title b),
      description = trim (cb_description b),
      skillsNeeded = (case cb_skillsNeeded b of None \<Rightarrow> [] | Some ss \<Rightarrow> ss),
      urgency = (case cb_urgency b of None \<Rightarrow> ''medium''
                 | Some u \<Rightarrow> if u = [] then ''medium'' else u),
      estimatedDuration = cb_estimatedDuration b, location = cb_location b,
      isRemote = (cb_isRemote b \<noteq> Some False),
      budgetMin = cb_budgetMin b, budgetMax = cb_budgetMax b,
      status = Open, helper = None, acceptedAt = None, completedAt = None\<rparr>"

text \<open>
  \<open>router.post("/")\<close> of routes/requests. The creation mail reads
  \<open>populatedRequest.requester.email\<close> inside the \<open>try\<close>, so a requester without a
  User document is a caught TypeError.
\<close>

definition post_request :: "env \<Rightarrow> string option \<Rightarrow> create_body \<Rightarrow> server \<Rightarrow> server \<times> effect list" where
  "post_request e token b st =
     (case authenticateToken e token of
        Inl r \<Rightarrow> (st, [Respond (fst r) (snd r)])
      | Inr caller \<Rightarrow>
          if trim (cb_title b) = [] \<or> trim (cb_description b) = [] \<or> \<not> isMongoId (cb_categoryId b)
          then (st, [Respond 400 Validation_errors])
          else if db_rejects e Find_category
          then (st, [Console (Log_route_error ''Error creating request''),
                     Respond 500 (Error_body ''Failed to create request'')])
          else if cb_categoryId b \<notin> categories st
          then (st, [Respond 400 (Error_body ''Invalid category'')])
          else if db_rejects e Save_request
          then (st, [Console (Log_route_error ''Error creating request''),
                     Respond 500 (Error_body ''Failed to create request'')])
          else
            let newRequest = new_request (jwt_id caller) b;
                st' = st\<lparr>requests := (requests st)(fresh_id e \<mapsto> newRequest)\<rparr>
            in if db_rejects e Refetch_request
               then (st', [Console (Log_route_error ''Error creating request''),
                           Respond 500 (Error_body ''Failed to create request'')])
               else (st',
                 (case users st' (requester newRequest) of
                    None \<Rightarrow> [Console (Log_email_failed ''Failed to send creation email'')]
                  | Some u \<Rightarrow>
                      try_send e ''Failed to send creation email''
                        [\<lparr>mail_to = email u,
                          mail_subject = ''Your help request has been created: '' @ title newRequest\<rparr>])
                 @ [Respond 201 (Request_body (fresh_id e) newRequest)]))"

text \<open>
  \<open>router.post("/:id/accept")\<close>. After the save, the payload of the first \<open>io.emit\<close>
  reads \<open>populatedRequest.requester.name\<close> outside any inner \<open>try\<close>: a requester
  without a User document is a TypeError that the outer \<open>catch\<close> turns into 500, the
  transition being saved already. The text of the first mail reads
  \<open>populatedRequest.helper.name\<close> inside the \<open>try\<close>.
\<close>

definition post_accept :: "env \<Rightarrow> string option \<Rightarrow> object_id \<Rightarrow> server \<Rightarrow> server \<times> effect list" where
  "post_accept e token rid st =
     (case authenticateToken e token of
        Inl r \<Rightarrow> (st, [Respond (fst r) (snd r)])
      | Inr caller \<Rightarrow>
          if db_rejects e Find_request
          then (st, [Console (Log_route_error ''Error accepting request''),
                     Respond 500 (Error_body ''Failed to accept request'')])
          else (case requests st rid of
            None \<Rightarrow> (st, [Respond 404 (Error_body ''Request not found'')])
          | Some req \<Rightarrow>
              if status req \<noteq> Open
              then (st, [Respond 400 (Error_body ''Request is not available'')])
              else if requester req = jwt_id caller
              then (st, [Respond 400 (Error_body ''Cannot accept your own request'')])
              else if db_rejects e Save_request
              then (st, [Console (Log_route_error ''Error accepting request''),
                         Respond 500 (Error_body ''Failed to accept request'')])
              else
                let req' = req\<lparr>helper := Some (jwt_id caller), status := In_progress,
                                acceptedAt := Some (now e)\<rparr>;
                    st' = st\<lparr>requests := (requests st)(rid \<mapsto> req')\<rparr>
                in if db_rejects e Refetch_request
                   then (st', [Console (Log_route_error ''Error accepting request''),
                               Respond 500 (Error_body ''Failed to accept request'')])
                   else (case users st' (requester req') of
                     None \<Rightarrow> (st', [Console (Log_route_error ''Error accepting request''),
                                     Respond 500 (Error_body ''Failed to accept request'')])
                   | Some ru \<Rightarrow> (st',
                       [Emit_all (Request_accepted rid (jwt_id caller) (requester req')),
                        Emit_all (Request_status_updated rid In_progress (jwt_id caller) (requester req')),
                        Console (Log_emitted ''request_accepted'')]
                       @ (case users st' (jwt_id caller) of
                            None \<Rightarrow> [Console (Log_email_failed ''Failed to send acceptance email'')]
                          | Some hu \<Rightarrow>
                              try_send e ''Failed to send acceptance email''
                                [\<lparr>mail_to = email ru, mail_subject = ''Your request has been accepted!''\<rparr>,
                                 \<lparr>mail_to = email hu, mail_subject = ''You accepted a request!''\<rparr>])
                       @ [Respond 200 (Request_body rid req')]))))"

text \<open>
  \<open>router.post("/:id/complete")\<close>. \<open>request.helper.toString()\<close> on a request without a
  helper is a TypeError (500). Both mails read the populated requester and helper inside
  the \<open>try\<close>.
\<close>

definition post_complete :: "env \<Rightarrow> string option \<Rightarrow> object_id \<Rightarrow> server \<Rightarrow> server \<times> effect list" where
  "post_complete e token rid st =
     (case authenticateToken e token of
        Inl r \<Rightarrow> (st, [Respond (fst r) (snd r)])
      | Inr caller \<Rightarrow>
          if db_rejects e Find_request
          then (st, [Console (Log_route_error ''Error completing request''),
                     Respond 500 (Error_body ''Failed to complete request'')])
          else (case requests st rid of
            None \<Rightarrow> (st, [Respond 404 (Error_body ''Request not found'')])
          | Some req \<Rightarrow>
              if status req \<noteq> In_progress
              then (st, [Respond 400 (Error_body ''Request is not in progress'')])
              else (case helper req of
                None \<Rightarrow> (st, [Console (Log_route_error ''Error completing request''),
                               Respond 500 (Error_body ''Failed to complete request'')])
              | Some h \<Rightarrow>
                  if h \<noteq> jwt_id caller
                  then (st, [Respond 403 (Error_body ''Only the helper can complete this request'')])
                  else if db_rejects e Save_request
                  then (st, [Console (Log_route_error ''Error completing request''),
                             Respond 500 (Error_body ''Failed to complete request'')])
                  else
                    let req' = req\<lparr>status := Completed, completedAt := Some (now e)\<rparr>;
                        st' = st\<lparr>requests := (requests st)(rid \<mapsto> req')\<rparr>
                    in if db_rejects e Refetch_request
                       then (st', [Console (Log_route_error ''Error completing request''),
                                   Respond 500 (Error_body ''Failed to complete request'')])
                       else (st',
                         [Emit_all (Request_status_updated rid Completed h (requester req')),
                          Console (Log_emitted ''request_status_updated'')]
                         @ (case (users st' (requester req'), users st' h) of
                              (Some ru, Some hu) \<Rightarrow>
                                try_send e ''Failed to send completion email''
                                  [\<lparr>mail_to = email ru, mail_subject = ''Your help request has been completed!''\<rparr>,
                                   \<lparr>mail_to = email hu, mail_subject = ''You completed a help request!''\<rparr>]
                            | _ \<Rightarrow> [Console (Log_email_failed ''Failed to send completion email'')])
                         @ [Respond 200 (Request_body rid req')]))))"

section \<open>REST handler of the message route\<close>

text \<open>
  The payload of a chat message, as the \<open>send_message\<close> event and the body of
  \<open>POST /messages\<close> carry it; an absent field is \<open>None\<close>.
\<close>

record message_data =
  md_requestId :: object_id
  md_content :: string
  md_messageType :: "string option"
  md_fileName :: "string option"
  md_fileSize :: "nat option"

text \<open>\<open>messageType || 'text'\<close>.\<close>

definition message_type_or_text :: "string option \<Rightarrow> string" where
  "message_type_or_text t = (case t of None \<Rightarrow> ''text'' | Some x \<Rightarrow> if x = [] then ''text'' else x)"

text \<open>
  \<open>router.post("/")\<close> of routes/messages. The recipient is the other party of the
  request. The mail is awaited with no \<open>try\<close> of its own: when the transporter
  rejects, the route's \<open>catch\<close> answers 500, after \<open>newMessage.save()\<close>.
\<close>

definition post_message :: "env \<Rightarrow> string option \<Rightarrow> message_data \<Rightarrow> server \<Rightarrow> server \<times> effect list" where
  "post_message e token d st =
     (case authenticateToken e token of
        Inl r \<Rightarrow> (st, [Respond (fst r) (snd r)])
      | Inr caller \<Rightarrow>
          if \<not> isMongoId (md_requestId d) \<or> trim (md_content d) = []
          then (st, [Respond 400 Validation_errors])
          else if db_rejects e Find_request
          then (st, [Console (Log_route_error ''Error sending message''),
                     Respond 500 (Error_body ''Failed to send message'')])
          else (case requests st (md_requestId d) of
            None \<Rightarrow> (st, [Respond 404 (Error_body ''Request not found'')])
          | Some req \<Rightarrow>
              if requester req \<noteq> jwt_id caller \<and> helper req \<noteq> Some (jwt_id caller)
              then (st, [Respond 403 (Error_body ''Not authorized to send messages'')])
              else if db_rejects e Find_user
              then (st, [Console (Log_route_error ''Error sending message''),
                         Respond 500 (Error_body ''Failed to send message'')])
              else (case users st (jwt_id caller) of
                None \<Rightarrow> (st, [Respond 404 (Error_body ''User not found'')])
              | Some u \<Rightarrow>
                  if db_rejects e Save_message
                  then (st, [Console (Log_route_error ''Error sending message''),
                             Respond 500 (Error_body ''Failed to send message'')])
                  else
                    let newMessage = \<lparr>mid = fresh_id e, request = md_requestId d,
                          sender = jwt_id caller, content = trim (md_content d),
                          messageType = message_type_or_text (md_messageType d),
                          fileName = md_fileName d, fileSize = md_fileSize d, isRead = False\<rparr>;
                        st' = st\<lparr>messages := messages st @ [newMessage]\<rparr>;
                        messageResponse = \<lparr>msg_id = mid newMessage,
                          msg_requestId = request newMessage, msg_senderId = sender newMessage,
                          msg_senderName = name u, msg_senderPicture = picture u,
                          msg_content = content newMessage,
                          msg_messageType = messageType newMessage,
                          msg_fileName = fileName newMessage, msg_fileSize = fileSize newMessage,
                          msg_createdAt = now e, msg_isRead = isRead newMessage\<rparr>
                    in if db_rejects e Find_recipient
                       then (st', [Console (Log_route_error ''Error sending message''),
                                   Respond 500 (Error_body ''Failed to send message'')])
                       else
                         let recipient =
                               (if requester req = jwt_id caller
                                then (case helper req of None \<Rightarrow> None | Some h \<Rightarrow> users st' h)
                                else users st' (requester req))
                         in (case recipient of
                               None \<Rightarrow> (st', [Respond 201 (Message_body messageResponse)])
                             | Some rc \<Rightarrow>
                                 if email rc = []
                                 then (st', [Respond 201 (Message_body messageResponse)])
                                 else if mail_rejects e (email rc)
                                 then (st', [Console (Log_route_error ''Error sending message''),
                                             Respond 500 (Error_body ''Failed to send message'')])
                                 else (st',
                                   [Send_mail \<lparr>mail_to = email rc,
                                      mail_subject = ''New message on request: '' @ title req\<rparr>,
                                    Respond 201 (Message_body messageResponse)])))))"

section \<open>The real-time gateway\<close>

text \<open>The payloads of \<open>join_room\<close>/\<open>leave_room\<close> and of \<open>typing\<close>.\<close>

record room_data =
  rd_requestId :: object_id
  rd_userId :: object_id

record typing_data =
  td_requestId :: object_id
  td_userId :: object_id
  td_userName :: string
  td_isTyping :: bool

text \<open>
  socket.io: \<open>socket.join(room)\<close>, \<open>socket.leave(room)\<close>, \<open>io.to(room).emit(ev)\<close>
  (every socket in the room) and \<open>socket.to(room).emit(ev)\<close> (every socket in the room
  but \<open>socket\<close> itself).
\<close>

definition socket_join :: "socket_id \<Rightarrow> object_id \<Rightarrow> server \<Rightarrow> server" where
  "socket_join sid room st = st\<lparr>io_rooms := (io_rooms st)(room := set_add sid (io_rooms st room))\<rparr>"

definition socket_leave :: "socket_id \<Rightarrow> object_id \<Rightarrow> server \<Rightarrow> server" where
  "socket_leave sid room st = st\<lparr>io_rooms := (io_rooms st)(room := set_delete sid (io_rooms st room))\<rparr>"

definition io_to :: "server \<Rightarrow> object_id \<Rightarrow> server_event \<Rightarrow> effect list" where
  "io_to st room ev = map (\<lambda>s. Emit s ev) (io_rooms st room)"

definition socket_to :: "server \<Rightarrow> socket_id \<Rightarrow> object_id \<Rightarrow> server_event \<Rightarrow> effect list" where
  "socket_to st sid room ev = map (\<lambda>s. Emit s ev) (removeAll sid (io_rooms st room))"

text \<open>
  The \<open>io.use\<close> middleware and the \<open>connection\<close> handler: a falsy \<open>auth.userId\<close>
  (missing or the empty string) refuses the connection. socket.io puts a new socket into
  the room named by its own id.
\<close>

definition connection :: "socket_id \<Rightarrow> string \<Rightarrow> server \<Rightarrow> server \<times> effect list" where
  "connection sid userId st =
     (if userId = [] then (st, [])
      else
        let st1 = socket_join sid sid (st\<lparr>sockets := (sockets st)(sid \<mapsto> userId)\<rparr>);
            st2 = st1\<lparr>connectedUsers := (connectedUsers st1)(userId \<mapsto> sid)\<rparr>;
            st3 = (if userRooms st2 userId = None
                   then st2\<lparr>userRooms := (userRooms st2)(userId \<mapsto> [])\<rparr> else st2)
        in (st3, [Console (Log_connected userId sid)]))"

text \<open>
  The \<open>join_room\<close> handler of socket \<open>sid\<close>. \<open>userId\<close> is the one of the payload.
  \<open>userRooms.get(userId).add(requestId)\<close> on a user without an entry is a TypeError,
  thrown after \<open>socket.join\<close> and caught by the handler's \<open>catch\<close>.
\<close>

definition join_room :: "env \<Rightarrow> socket_id \<Rightarrow> room_data \<Rightarrow> server \<Rightarrow> server \<times> effect list" where
  "join_room e sid d st =
     (let requestId = rd_requestId d; userId = rd_userId d;
          log0 = Console (Log_joining userId requestId)
      in if db_rejects e Find_request then (st, [log0, Console Log_join_error])
         else (case requests st requestId of
           None \<Rightarrow> (st, [log0, Console (Log_request_not_found requestId)])
         | Some req \<Rightarrow>
             let isRequester = (requester req = userId);
                 isHelper = (helper req = Some userId)
             in if \<not> isRequester \<and> \<not> isHelper
                then (st, [log0, Console (Log_not_authorized userId requestId)])
                else
                  let st1 = socket_join sid requestId st
                  in (case userRooms st1 userId of
                        None \<Rightarrow> (st1, [log0, Console Log_join_error])
                      | Some rs \<Rightarrow>
                          let st2 = st1\<lparr>userRooms := (userRooms st1)(userId \<mapsto> set_add requestId rs)\<rparr>;
                              us = (case roomUsers st2 requestId of None \<Rightarrow> [] | Some us \<Rightarrow> us);
                              st3 = st2\<lparr>roomUsers := (roomUsers st2)(requestId \<mapsto> set_add userId us)\<rparr>
                          in (st3, [log0]
                                @ socket_to st3 sid requestId (User_joined_room requestId userId (now e))
                                @ [Console (Log_joined userId requestId)]))))"

text \<open>
  The bookkeeping \<open>leave_room\<close> and \<open>disconnect\<close> both do on \<open>roomUsers\<close>: delete the
  user from the room's set if there is one, and delete the entry once the set is empty.
\<close>

definition remove_room_user :: "object_id \<Rightarrow> object_id \<Rightarrow> server \<Rightarrow> server" where
  "remove_room_user userId requestId st =
     (case roomUsers st requestId of
        None \<Rightarrow> st
      | Some us \<Rightarrow>
          if set_delete userId us = []
          then st\<lparr>roomUsers := (roomUsers st)(requestId := None)\<rparr>
          else st\<lparr>roomUsers := (roomUsers st)(requestId \<mapsto> set_delete userId us)\<rparr>)"

definition leave_room :: "env \<Rightarrow> socket_id \<Rightarrow> room_data \<Rightarrow> server \<Rightarrow> server \<times> effect list" where
  "leave_room e sid d st =
     (let requestId = rd_requestId d; userId = rd_userId d;
          st1 = socket_leave sid requestId st;
          st2 = (case userRooms st1 userId of
                   None \<Rightarrow> st1
                 | Some rs \<Rightarrow> st1\<lparr>userRooms := (userRooms st1)(userId \<mapsto> set_delete requestId rs)\<rparr>);
          st3 = remove_room_user userId requestId st2
      in (st3, [Console (Log_leaving userId requestId)]
            @ socket_to st3 sid requestId (User_left_room requestId userId (now e))
            @ [Console (Log_left userId requestId)]))"

text \<open>
  The notifications of \<open>send_message\<close>: \<open>roomUsersSet.forEach\<close>, skipping the sender,
  to the socket \<open>connectedUsers\<close> holds for the user, if any.
\<close>

definition notifications :: "env \<Rightarrow> object_id \<Rightarrow> object_id \<Rightarrow> string \<Rightarrow> server \<Rightarrow> effect list" where
  "notifications e requestId senderId senderName st =
     (case roomUsers st requestId of
        None \<Rightarrow> []
      | Some us \<Rightarrow>
          concat (map (\<lambda>userId.
            if userId \<noteq> senderId
            then (case connectedUsers st userId of
                    None \<Rightarrow> []
                  | Some s \<Rightarrow> [Emit s (Notification_event requestId
                                 (''New message from '' @ senderName) senderName (now e))])
            else []) us))"

text \<open>
  The \<open>send_message\<close> handler of socket \<open>sid\<close>, whose \<open>socket.userId\<close> is \<open>senderId\<close>.
  A rejected \<open>User.findById\<close> or \<open>newMessage.save()\<close> goes to the \<open>catch\<close>.
\<close>

definition send_message :: "env \<Rightarrow> socket_id \<Rightarrow> object_id \<Rightarrow> message_data \<Rightarrow> server \<Rightarrow> server \<times> effect list" where
  "send_message e sid senderId d st =
     (let requestId = md_requestId d;
          log0 = Console (Log_message_from senderId requestId)
      in if db_rejects e Find_user
         then (st, [log0, Console Log_send_error, Emit sid (Error_event ''Failed to send message'')])
         else (case users st senderId of
           None \<Rightarrow> (st, [log0, Console (Log_user_not_found senderId)])
         | Some u \<Rightarrow>
             let message = \<lparr>msg_id = fresh_id e, msg_requestId = requestId,
                   msg_senderId = senderId, msg_senderName = name u,
                   msg_senderPicture = picture u, msg_content = md_content d,
                   msg_messageType = message_type_or_text (md_messageType d),
                   msg_fileName = md_fileName d, msg_fileSize = md_fileSize d,
                   msg_createdAt = now e, msg_isRead = False\<rparr>;
                 newMessage = \<lparr>mid = fresh_id e, request = requestId, sender = senderId,
                   content = md_content d,
                   messageType = message_type_or_text (md_messageType d),
                   fileName = md_fileName d, fileSize = md_fileSize d, isRead = False\<rparr>
             in if db_rejects e Save_message
                then (st, [log0, Console Log_send_error,
                           Emit sid (Error_event ''Failed to send message'')])
                else
                  let st' = st\<lparr>messages := messages st @ [newMessage]\<rparr>
                  in (st', [log0]
                        @ io_to st' requestId (Message_event message)
                        @ notifications e requestId senderId (name u) st'
                        @ [Console (Log_message_sent requestId)])))"

definition typing :: "env \<Rightarrow> socket_id \<Rightarrow> typing_data \<Rightarrow> server \<Rightarrow> server \<times> effect list" where
  "typing e sid d st =
     (st, Console (Log_typing (td_requestId d))
          # socket_to st sid (td_requestId d)
              (Typing_event (td_requestId d) (td_userId d) (td_userName d) (td_isTyping d) (now e)))"

text \<open>
  The \<open>userRoomsSet.forEach\<close> of the \<open>disconnect\<close> handler: for each room in turn, the
  bookkeeping on \<open>roomUsers\<close>, then \<open>socket.to(requestId).emit('user_left_room', ..)\<close>.
\<close>

fun leave_all :: "env \<Rightarrow> socket_id \<Rightarrow> object_id \<Rightarrow> object_id list \<Rightarrow> server \<Rightarrow> server \<times> effect list" where
  "leave_all e sid userId [] st = (st, [])"
| "leave_all e sid userId (requestId # rest) st =
     (let st1 = remove_room_user userId requestId st;
          out = socket_to st1 sid requestId (User_left_room requestId userId (now e));
          r = leave_all e sid userId rest st1
      in (fst r, out @ snd r))"

text \<open>
  The \<open>disconnect\<close> handler of socket \<open>sid\<close>, whose \<open>socket.userId\<close> is \<open>userId\<close>.
  socket.io has taken the socket out of all its rooms when the event fires.
\<close>

definition disconnect :: "env \<Rightarrow> socket_id \<Rightarrow> object_id \<Rightarrow> server \<Rightarrow> server \<times> effect list" where
  "disconnect e sid userId st =
     (let st0 = st\<lparr>sockets := (sockets st)(sid := None),
                    io_rooms := (\<lambda>r. set_delete sid (io_rooms st r))\<rparr>;
          st1 = st0\<lparr>connectedUsers := (connectedUsers st0)(userId := None)\<rparr>
      in (case userRooms st1 userId of
            None \<Rightarrow> (st1, [Console (Log_disconnected userId)])
          | Some rs \<Rightarrow>
              let r = leave_all e sid userId rs st1
              in ((fst r)\<lparr>userRooms := (userRooms (fst r))(userId := None)\<rparr>,
                  Console (Log_disconnected userId) # snd r)))"

section \<open>The server as a transition system\<close>

datatype action =
    Connection socket_id string
  | Join_room socket_id room_data
  | Leave_room socket_id room_data
  | Send_message socket_id message_data
  | Typing socket_id typing_data
  | Disconnect socket_id
  | Post_request "string option" create_body
  | Post_accept "string option" object_id
  | Post_complete "string option" object_id
  | Post_message "string option" message_data

text \<open>
  One event or HTTP request, handled to its end. Socket ids are unique, so a connection
  under the id of a live socket does not happen; the handlers of a socket run only while
  it is connected.
\<close>

fun step :: "env \<Rightarrow> action \<Rightarrow> server \<Rightarrow> server \<times> effect list" where
  "step e (Connection sid userId) st =
     (if sockets st sid = None then connection sid userId st else (st, []))"
| "step e (Join_room sid d) st =
     (if sockets st sid = None then (st, []) else join_room e sid d st)"
| "step e (Leave_room sid d) st =
     (if sockets st sid = None then (st, []) else leave_room e sid d st)"
| "step e (Send_message sid d) st =
     (case sockets st sid of None \<Rightarrow> (st, []) | Some userId \<Rightarrow> send_message e sid userId d st)"
| "step e (Typing sid d) st =
     (if sockets st sid = None then (st, []) else typing e sid d st)"
| "step e (Disconnect sid) st =
     (case sockets st sid of None \<Rightarrow> (st, []) | Some userId \<Rightarrow> disconnect e sid userId st)"
| "step e (Post_request token b) st = post_request e token b st"
| "step e (Post_accept token rid) st = post_accept e token rid st"
| "step e (Post_complete token rid) st = post_complete e token rid st"
| "step e (Post_message token d) st = post_message e token d st"

fun run :: "(env \<times> action) list \<Rightarrow> server \<Rightarrow> server \<times> effect list" where
  "run [] st = (st, [])"
| "run (ea # rest) st =
     (let r1 = step (fst ea) (snd ea) st; r2 = run rest (fst r1)
      in (fst r2, snd r1 @ snd r2))"

text \<open>
  A server starts with no request, no message, no connection and empty presence maps; the
  User and Category collections are filled by routes outside this development.
\<close>

definition initial :: "server \<Rightarrow> bool" where
  "initial st \<longleftrightarrow>
     requests st = Map.empty \<and> messages st = [] \<and> sockets st = Map.empty \<and>
     io_rooms st = (\<lambda>_. []) \<and> connectedUsers st = Map.empty \<and>
     userRooms st = Map.empty \<and> roomUsers st = Map.empty"

inductive reachable :: "server \<Rightarrow> bool" where
  reachable_initial: "initial st \<Longrightarrow> reachable st"
| reachable_step: "reachable st \<Longrightarrow> reachable (fst (step e a st))"

section \<open>Predicates of the specification\<close>

text \<open>
  The invariant of a HelpRequest: no helper while open, a helper once in progress or
  completed, \<open>completedAt\<close> only on a completed request.
\<close>

definition request_inv :: "help_request \<Rightarrow> bool" where
  "request_inv r \<longleftrightarrow>
     (status r = Open \<longrightarrow> helper r = None) \<and>
     (status r = In_progress \<or> status r = Completed \<longrightarrow> helper r \<noteq> None) \<and>
     (completedAt r \<noteq> None \<longrightarrow> status r = Completed)"


text \<open>The status code of the HTTP response among the effects of a handler.\<close>

fun response_code :: "effect list \<Rightarrow> nat option" where
  "response_code [] = None"
| "response_code (Respond c b # xs) = Some c"
| "response_code (x # xs) = response_code xs"

text \<open>Filters on effects: an event delivered to a connection, a \<open>message\<close> event, a console line.\<close>

fun is_emit :: "effect \<Rightarrow> bool" where
  "is_emit (Emit s ev) = True"
| "is_emit _ = False"

fun is_message_emit :: "effect \<Rightarrow> bool" where
  "is_message_emit (Emit s (Message_event m)) = True"
| "is_message_emit _ = False"

fun is_console :: "effect \<Rightarrow> bool" where
  "is_console (Console l) = True"
| "is_console _ = False"

text \<open>
  Membership in the two presence maps: \<open>u\<close> is in the member set \<open>roomUsers(r)\<close>, and
  \<open>r\<close> is in the room set \<open>userRooms(u)\<close>. A missing entry has no member.
\<close>

definition in_room :: "server \<Rightarrow> object_id \<Rightarrow> object_id \<Rightarrow> bool" where
  "in_room st u r = (case roomUsers st r of None \<Rightarrow> False | Some us \<Rightarrow> u \<in> set us)"

definition has_room :: "server \<Rightarrow> object_id \<Rightarrow> object_id \<Rightarrow> bool" where
  "has_room st u r = (case userRooms st u of None \<Rightarrow> False | Some rs \<Rightarrow> r \<in> set rs)"

definition presence_inv :: "server \<Rightarrow> bool" where
  "presence_inv st \<longleftrightarrow>
     (\<forall>u r. in_room st u r \<longleftrightarrow> has_room st u r) \<and> (\<forall>r. roomUsers st r \<noteq> Some [])"

text \<open>What \<open>remove_room_user\<close> leaves of one entry of \<open>roomUsers\<close>.\<close>

definition without :: "object_id \<Rightarrow> object_id list option \<Rightarrow> object_id list option" where
  "without u m = (case m of None \<Rightarrow> None
                  | Some us \<Rightarrow> if set_delete u us = [] then None else Some (set_delete u us))"

section \<open>A concrete server\<close>

text \<open>
  Two registered users, Alice and Bob, a third identifier with no account, one category,
  and the request Alice posts. The theorems below are instantiated on these.
\<close>

definition alice :: object_id where "alice = ''64b7f0c2a1d3e4f5a6b7c8d1''"
definition bob :: object_id where "bob = ''64b7f0c2a1d3e4f5a6b7c8d2''"
definition carol :: object_id where "carol = ''64b7f0c2a1d3e4f5a6b7c8d3''"
definition maths :: object_id where "maths = ''64b7f0c2a1d3e4f5a6b7c8c1''"
definition room1 :: object_id where "room1 = ''64b7f0c2a1d3e4f5a6b7c8e1''"
definition msg1 :: object_id where "msg1 = ''64b7f0c2a1d3e4f5a6b7c8f1''"

definition env0 :: env where
  "env0 = \<lparr>now = 1000, fresh_id = room1, db_rejects = (\<lambda>_. False), mail_rejects = (\<lambda>_. False),
     jwt_verify = (\<lambda>t. if t = ''token-a'' then Some \<lparr>jwt_id = alice, jwt_name = ''Alice''\<rparr>
                        else if t = ''token-b'' then Some \<lparr>jwt_id = bob, jwt_name = ''Bob''\<rparr>
                        else None)\<rparr>"

definition env1 :: env where "env1 = env0\<lparr>fresh_id := msg1\<rparr>"

text \<open>The transporter rejects every mail; \<open>newMessage.save()\<close> rejects.\<close>

definition env_mail_down :: env where
  "env_mail_down = env1\<lparr>mail_rejects := (\<lambda>_. True)\<rparr>"

definition env_db_down :: env where
  "env_db_down = env1\<lparr>db_rejects := (\<lambda>c. c = Save_message)\<rparr>"

definition st0 :: server where
  "st0 = init\<lparr>users := [alice \<mapsto> \<lparr>name = ''Alice'', email = ''alice@example.org'', picture = []\<rparr>,
                         bob \<mapsto> \<lparr>name = ''Bob'', email = ''bob@example.org'', picture = []\<rparr>],
              categories := {maths}\<rparr>"

definition body1 :: create_body where
  "body1 = \<lparr>cb_title = ''Help with recursion'', cb_description = ''Stuck on induction'',
     cb_categoryId = maths, cb_skillsNeeded = None, cb_urgency = None,
     cb_estimatedDuration = None, cb_location = None, cb_isRemote = None,
     cb_budgetMin = None, cb_budgetMax = None\<rparr>"

definition open_request :: help_request where
  "open_request = new_request alice body1"

definition accepted_request :: help_request where
  "accepted_request = open_request\<lparr>helper := Some bob, status := In_progress, acceptedAt := Some 1000\<rparr>"

definition completed_request :: help_request where
  "completed_request = open_request\<lparr>helper := Some bob, status := Completed,
     acceptedAt := Some 1000, completedAt := Some 1000\<rparr>"

definition hello :: message_data where
  "hello = \<lparr>md_requestId = room1, md_content = ''hello'', md_messageType = None,
     md_fileName = None, md_fileSize = None\<rparr>"

definition hello_row :: message_row where
  "hello_row = \<lparr>mid = msg1, request = room1, sender = alice, content = ''hello'',
     messageType = ''text'', fileName = None, fileSize = None, isRead = False\<rparr>"

definition hello_message :: chat_message where
  "hello_message = \<lparr>msg_id = msg1, msg_requestId = room1, msg_senderId = alice,
     msg_senderName = ''Alice'', msg_senderPicture = [], msg_content = ''hello'',
     msg_messageType = ''text'', msg_fileName = None, msg_fileSize = None,
     msg_createdAt = 1000, msg_isRead = False\<rparr>"

text \<open>The server after Alice's \<open>POST /requests\<close>, and after Bob's accept.\<close>

definition st1 :: server where
  "st1 = st0\<lparr>requests := [room1 \<mapsto> open_request]\<rparr>"

definition st_accepted :: server where
  "st_accepted = st0\<lparr>requests := [room1 \<mapsto> accepted_request]\<rparr>"

text \<open>
  Alice posts, Bob accepts, both connect and join the request's room: the trace and the
  server it ends in.
\<close>

definition chat_trace :: "(env \<times> action) list" where
  "chat_trace =
     [(env0, Post_request (Some ''token-a'') body1),
      (env0, Post_accept (Some ''token-b'') room1),
      (env0, Connection ''s1'' alice),
      (env0, Join_room ''s1'' \<lparr>rd_requestId = room1, rd_userId = alice\<rparr>),
      (env0, Connection ''s2'' bob),
      (env0, Join_room ''s2'' \<lparr>rd_requestId = room1, rd_userId = bob\<rparr>)]"

definition st_chat :: server where
  "st_chat = st0\<lparr>requests := [room1 \<mapsto> accepted_request],
     sockets := [''s1'' \<mapsto> alice, ''s2'' \<mapsto> bob],
     io_rooms := (\<lambda>_. [])(''s1'' := [''s1''], room1 := [''s1'', ''s2''], ''s2'' := [''s2'']),
     connectedUsers := [alice \<mapsto> ''s1'', bob \<mapsto> ''s2''],
     userRooms := [alice \<mapsto> [room1], bob \<mapsto> [room1]],
     roomUsers := [room1 \<mapsto> [alice, bob]]\<rparr>"

text \<open>
  Alice posts, connects as \<open>s1\<close>, joins the room, and opens a second connection \<open>s2\<close>
  (a second browser tab), which has not joined the room yet.
\<close>

definition second_tab_trace :: "(env \<times> action) list" where
  "second_tab_trace =
     [(env0, Post_request (Some ''token-a'') body1),
      (env0, Connection ''s1'' alice),
      (env0, Join_room ''s1'' \<lparr>rd_requestId = room1, rd_userId = alice\<rparr>),
      (env0, Connection ''s2'' alice)]"

definition st_tabs :: server where
  "st_tabs = st0\<lparr>requests := [room1 \<mapsto> open_request],
     sockets := [''s1'' \<mapsto> alice, ''s2'' \<mapsto> alice],
     io_rooms := (\<lambda>_. [])(''s1'' := [''s1''], room1 := [''s1''], ''s2'' := [''s2'']),
     connectedUsers := [alice \<mapsto> ''s2''],
     userRooms := [alice \<mapsto> [room1]],
     roomUsers := [room1 \<mapsto> [alice]]\<rparr>"


section \<open>Evaluation on the concrete server\<close>

lemmas handler_defs = post_request_def post_accept_def post_complete_def post_message_def
  authenticateToken_def isMongoId_def is_hex_def trim_def is_space_def new_request_def
  connection_def join_room_def leave_room_def send_message_def typing_def disconnect_def
  socket_join_def socket_leave_def socket_to_def io_to_def set_add_def set_delete_def
  remove_room_user_def notifications_def message_type_or_text_def Let_def

lemmas data_defs = env0_def env1_def env_mail_down_def env_db_down_def st0_def st1_def
  st_accepted_def body1_def open_request_def accepted_request_def hello_def hello_row_def
  hello_message_def alice_def bob_def carol_def maths_def room1_def msg1_def init_def

lemma initial_st0: "initial st0"
  by (simp add: initial_def st0_def init_def)

lemma reachable_run: "reachable st \<Longrightarrow> reachable (fst (run tr st))"
proof (induction tr arbitrary: st)
  case Nil
  then show ?case by simp
next
  case (Cons ea tr)
  from Cons.prems have "reachable (fst (step (fst ea) (snd ea) st))"
    by (rule reachable_step)
  then have "reachable (fst (run tr (fst (step (fst ea) (snd ea) st))))"
    by (rule Cons.IH)
  then show ?case by (simp add: Let_def)
qed

lemma run_chat_trace: "fst (run chat_trace st0) = st_chat"
  by (simp add: chat_trace_def st_chat_def handler_defs data_defs fun_upd_twist)

lemma run_second_tab_trace: "fst (run second_tab_trace st0) = st_tabs"
  by (simp add: second_tab_trace_def st_tabs_def handler_defs data_defs fun_upd_twist)

lemma reachable_st_chat: "reachable st_chat"
proof -
  have "reachable (fst (run chat_trace st0))"
    by (rule reachable_run [OF reachable_initial [OF initial_st0]])
  then show ?thesis by (simp only: run_chat_trace)
qed

lemma reachable_st_tabs: "reachable st_tabs"
proof -
  have "reachable (fst (run second_tab_trace st0))"
    by (rule reachable_run [OF reachable_initial [OF initial_st0]])
  then show ?thesis by (simp only: run_second_tab_trace)
qed

section \<open>The request lifecycle\<close>

lemma response_code_append [simp]:
  "response_code (xs @ ys) = (case response_code xs of None \<Rightarrow> response_code ys | Some c \<Rightarrow> Some c)"
  by (induction xs rule: response_code.induct) auto

lemma response_code_try_send [simp]: "response_code (try_send e w ms) = None"
  by (induction ms) auto

text \<open>
  Claim C2. An accept call by an authenticated caller on a request the store returns:
  when the status is not \<open>open\<close> it fails with the 400 answer "Request is not available"
  (InvalidStateError) and changes nothing; when the status is \<open>open\<close> and the caller is the
  requester it fails with the 400 answer "Cannot accept your own request" (SelfAcceptError)
  and changes nothing; when the status is \<open>open\<close> and the caller is not the requester, the
  request is saved with \<open>helper\<close> the caller, \<open>status\<close> \<open>in_progress\<close> and \<open>acceptedAt\<close>
  the current time. The status check comes first, as the handler orders them. With a store
  that takes the write and returns the populated request, the answer is 200 if and only
  if the status was \<open>open\<close> and the caller is not the requester.
\<close>

theorem accept_lifecycle:
  assumes "authenticateToken e token = Inr caller"
    and "requests st rid = Some req"
    and "\<not> db_rejects e Find_request"
  shows "(status req \<noteq> Open \<longrightarrow>
            post_accept e token rid st = (st, [Respond 400 (Error_body ''Request is not available'')])) \<and>
         (status req = Open \<and> requester req = jwt_id caller \<longrightarrow>
            post_accept e token rid st = (st, [Respond 400 (Error_body ''Cannot accept your own request'')])) \<and>
         (status req = Open \<and> requester req \<noteq> jwt_id caller \<and> \<not> db_rejects e Save_request \<longrightarrow>
            fst (post_accept e token rid st) =
              st\<lparr>requests := (requests st)(rid \<mapsto>
                req\<lparr>helper := Some (jwt_id caller), status := In_progress, acceptedAt := Some (now e)\<rparr>)\<rparr>) \<and>
         (\<not> db_rejects e Save_request \<and> \<not> db_rejects e Refetch_request \<and> users st (requester req) \<noteq> None \<longrightarrow>
            (response_code (snd (post_accept e token rid st)) = Some 200
               \<longleftrightarrow> status req = Open \<and> requester req \<noteq> jwt_id caller))"
  using assms
  by (auto simp: post_accept_def Let_def split: option.splits)

text \<open>
  C2 on the concrete server: Bob accepts Alice's open request, the answer is 200 and the
  server is the one with the request in progress under Bob; Alice accepting her own request
  is refused, and so is a second accept of the request in progress.
\<close>

theorem accept_lifecycle_witness:
  "authenticateToken env0 (Some ''token-b'') = Inr \<lparr>jwt_id = bob, jwt_name = ''Bob''\<rparr> \<and>
   requests st1 room1 = Some open_request \<and>
   fst (post_accept env0 (Some ''token-b'') room1 st1) = st_accepted \<and>
   response_code (snd (post_accept env0 (Some ''token-b'') room1 st1)) = Some 200 \<and>
   post_accept env0 (Some ''token-a'') room1 st1 =
     (st1, [Respond 400 (Error_body ''Cannot accept your own request'')]) \<and>
   post_accept env0 (Some ''token-b'') room1 st_accepted =
     (st_accepted, [Respond 400 (Error_body ''Request is not available'')])"
proof -
  have h1: "authenticateToken env0 (Some ''token-b'') = Inr \<lparr>jwt_id = bob, jwt_name = ''Bob''\<rparr>"
    by (simp add: authenticateToken_def env0_def)
  have h2: "requests st1 room1 = Some open_request" by (simp add: st1_def)
  have h3: "\<not> db_rejects env0 Find_request" by (simp add: env0_def)
  have e: "st1\<lparr>requests := (requests st1)(room1 \<mapsto>
              open_request\<lparr>helper := Some (jwt_id \<lparr>jwt_id = bob, jwt_name = ''Bob''\<rparr>),
                status := In_progress, acceptedAt := Some (now env0)\<rparr>)\<rparr> = st_accepted"
    by (simp add: st1_def st_accepted_def accepted_request_def env0_def)
  have g1: "authenticateToken env0 (Some ''token-a'') = Inr \<lparr>jwt_id = alice, jwt_name = ''Alice''\<rparr>"
    by (simp add: authenticateToken_def env0_def)
  have g2: "requests st_accepted room1 = Some accepted_request" by (simp add: st_accepted_def)
  from accept_lifecycle [OF h1 h2 h3] h1 h2 e
  have a: "fst (post_accept env0 (Some ''token-b'') room1 st1) = st_accepted \<and>
      response_code (snd (post_accept env0 (Some ''token-b'') room1 st1)) = Some 200"
    by (simp add: data_defs new_request_def)
  from accept_lifecycle [OF g1 h2 h3]
  have b: "post_accept env0 (Some ''token-a'') room1 st1 =
     (st1, [Respond 400 (Error_body ''Cannot accept your own request'')])"
    by (simp add: open_request_def new_request_def)
  from accept_lifecycle [OF h1 g2 h3]
  have c: "post_accept env0 (Some ''token-b'') room1 st_accepted =
     (st_accepted, [Respond 400 (Error_body ''Request is not available'')])"
    by (simp add: accepted_request_def)
  from h1 h2 a b c show ?thesis by simp
qed

text \<open>
  Claim C3. A complete call by an authenticated caller on a request the store returns and
  that satisfies the lifecycle invariant: when the status is not \<open>in_progress\<close> it fails
  with the 400 answer "Request is not in progress" (InvalidStateError) and changes nothing;
  when the status is \<open>in_progress\<close> and the caller is not the helper it fails with the 403
  answer "Only the helper can complete this request" (ForbiddenError) and changes nothing;
  when the status is \<open>in_progress\<close> and the caller is the helper, the request is saved with
  \<open>status\<close> \<open>completed\<close> and \<open>completedAt\<close> the current time. With a store that takes
  the write and returns the populated request, the answer is 200 if and only if the
  status was \<open>in_progress\<close> and the caller is the helper.
\<close>

theorem complete_lifecycle:
  assumes "authenticateToken e token = Inr caller"
    and "requests st rid = Some req"
    and "\<not> db_rejects e Find_request"
    and "request_inv req"
  shows "(status req \<noteq> In_progress \<longrightarrow>
            post_complete e token rid st = (st, [Respond 400 (Error_body ''Request is not in progress'')])) \<and>
         (status req = In_progress \<and> helper req \<noteq> Some (jwt_id caller) \<longrightarrow>
            post_complete e token rid st =
              (st, [Respond 403 (Error_body ''Only the helper can complete this request'')])) \<and>
         (status req = In_progress \<and> helper req = Some (jwt_id caller) \<and> \<not> db_rejects e Save_request \<longrightarrow>
            fst (post_complete e token rid st) =
              st\<lparr>requests := (requests st)(rid \<mapsto>
                req\<lparr>status := Completed, completedAt := Some (now e)\<rparr>)\<rparr>) \<and>
         (\<not> db_rejects e Save_request \<and> \<not> db_rejects e Refetch_request \<longrightarrow>
            (response_code (snd (post_complete e token rid st)) = Some 200
               \<longleftrightarrow> status req = In_progress \<and> helper req = Some (jwt_id caller)))"
  using assms
  by (auto simp: post_complete_def Let_def request_inv_def split: option.splits)

text \<open>
  C3 on the concrete server: Bob, the helper, completes the request he accepted; Alice, the
  requester, is refused with 403, and completing the request while it is open is refused.
\<close>

theorem complete_lifecycle_witness:
  "authenticateToken env0 (Some ''token-b'') = Inr \<lparr>jwt_id = bob, jwt_name = ''Bob''\<rparr> \<and>
   requests st_accepted room1 = Some accepted_request \<and>
   request_inv accepted_request \<and>
   requests (fst (post_complete env0 (Some ''token-b'') room1 st_accepted)) room1
     = Some completed_request \<and>
   response_code (snd (post_complete env0 (Some ''token-b'') room1 st_accepted)) = Some 200 \<and>
   post_complete env0 (Some ''token-a'') room1 st_accepted =
     (st_accepted, [Respond 403 (Error_body ''Only the helper can complete this request'')]) \<and>
   post_complete env0 (Some ''token-b'') room1 st1 =
     (st1, [Respond 400 (Error_body ''Request is not in progress'')])"
proof -
  have h1: "authenticateToken env0 (Some ''token-b'') = Inr \<lparr>jwt_id = bob, jwt_name = ''Bob''\<rparr>"
    by (simp add: authenticateToken_def env0_def)
  have h2: "requests st_accepted room1 = Some accepted_request" by (simp add: st_accepted_def)
  have h3: "\<not> db_rejects env0 Find_request" by (simp add: env0_def)
  have h4: "request_inv accepted_request"
    by (simp add: request_inv_def accepted_request_def open_request_def new_request_def)
  have g1: "authenticateToken env0 (Some ''token-a'') = Inr \<lparr>jwt_id = alice, jwt_name = ''Alice''\<rparr>"
    by (simp add: authenticateToken_def env0_def)
  have g2: "requests st1 room1 = Some open_request" by (simp add: st1_def)
  have g4: "request_inv open_request"
    by (simp add: request_inv_def open_request_def new_request_def)
  from complete_lifecycle [OF h1 h2 h3 h4]
  have a: "requests (fst (post_complete env0 (Some ''token-b'') room1 st_accepted)) room1
       = Some completed_request \<and>
     response_code (snd (post_complete env0 (Some ''token-b'') room1 st_accepted)) = Some 200"
    by (simp add: data_defs new_request_def completed_request_def)
  from complete_lifecycle [OF g1 h2 h3 h4]
  have b: "post_complete env0 (Some ''token-a'') room1 st_accepted =
     (st_accepted, [Respond 403 (Error_body ''Only the helper can complete this request'')])"
    by (simp add: accepted_request_def alice_def bob_def)
  from complete_lifecycle [OF h1 g2 h3 g4]
  have c: "post_complete env0 (Some ''token-b'') room1 st1 =
     (st1, [Respond 400 (Error_body ''Request is not in progress'')])"
    by (simp add: open_request_def new_request_def)
  from h1 h2 h4 a b c show ?thesis by simp
qed

subsection \<open>The lifecycle invariant\<close>









lemma remove_room_user_requests [simp]: "requests (remove_room_user u r st) = requests st"
  by (simp add: remove_room_user_def split: option.splits)

lemma leave_all_requests [simp]: "requests (fst (leave_all e sid u rs st)) = requests st"
  by (induction rs arbitrary: st) (simp_all add: Let_def)





subsection \<open>Best-effort mail\<close>

text \<open>
  In the three routes of the request lifecycle the mail is sent inside a \<open>try\<close>: whether
  the transporter rejects has no influence on the saved state or on the answer.
\<close>

lemma best_effort_mail_requests:
  "fst (post_request (e\<lparr>mail_rejects := m\<rparr>) token b st) = fst (post_request e token b st)"
  "response_code (snd (post_request (e\<lparr>mail_rejects := m\<rparr>) token b st)) =
     response_code (snd (post_request e token b st))"
  "fst (post_accept (e\<lparr>mail_rejects := m\<rparr>) token rid st) = fst (post_accept e token rid st)"
  "response_code (snd (post_accept (e\<lparr>mail_rejects := m\<rparr>) token rid st)) =
     response_code (snd (post_accept e token rid st))"
  "fst (post_complete (e\<lparr>mail_rejects := m\<rparr>) token rid st) = fst (post_complete e token rid st)"
  "response_code (snd (post_complete (e\<lparr>mail_rejects := m\<rparr>) token rid st)) =
     response_code (snd (post_complete e token rid st))"
  by (auto simp: post_request_def post_accept_def post_complete_def authenticateToken_def Let_def
      split: option.splits sum.splits)

text \<open>
  Claim C8, at the input where the code departs from it. Alice, the requester, posts a
  message on the request Bob has accepted, and the transporter rejects the mail to Bob:
  the message row is saved, and the route answers 500 "Failed to send message". The mail
  failure reaches the caller as an error response; the saved row is not rolled back.
\<close>

theorem post_message_email_failure:
  "messages (fst (post_message env_mail_down (Some ''token-a'') hello st_accepted)) = [hello_row] \<and>
   snd (post_message env_mail_down (Some ''token-a'') hello st_accepted) =
     [Console (Log_route_error ''Error sending message''),
      Respond 500 (Error_body ''Failed to send message'')]"
  by (simp add: handler_defs data_defs)

text \<open>The answer of that call is 500, and one row is in the Message collection.\<close>

theorem post_message_email_failure_witness:
  "response_code (snd (post_message env_mail_down (Some ''token-a'') hello st_accepted)) = Some 500 \<and>
   length (messages (fst (post_message env_mail_down (Some ''token-a'') hello st_accepted))) = 1"
  using post_message_email_failure by simp

section \<open>The presence registry\<close>

subsection \<open>The bookkeeping of leave and disconnect\<close>

lemma removeAll_Nil_iff: "removeAll u xs = [] \<longleftrightarrow> set xs \<subseteq> {u}"
  by (induction xs) auto

lemma set_set_add [simp]: "set (set_add x xs) = insert x (set xs)"
  by (auto simp: set_add_def)

lemma set_add_not_Nil [simp]: "set_add x xs \<noteq> []"
  by (auto simp: set_add_def)

lemma removeAll_set_add [simp]: "removeAll x (set_add x xs) = removeAll x xs"
  by (simp add: set_add_def)

lemma remove_room_user_fields [simp]:
  "sockets (remove_room_user u r st) = sockets st"
  "io_rooms (remove_room_user u r st) = io_rooms st"
  "connectedUsers (remove_room_user u r st) = connectedUsers st"
  "userRooms (remove_room_user u r st) = userRooms st"
  "users (remove_room_user u r st) = users st"
  "messages (remove_room_user u r st) = messages st"
  by (simp_all add: remove_room_user_def split: option.splits)

lemma without_idem [simp]: "without u (without u m) = without u m"
  by (simp add: without_def set_delete_def split: option.splits)

lemma without_not_empty: "without u m \<noteq> Some []"
  by (simp add: without_def split: option.splits)

lemma in_room_without:
  "(case without u m of None \<Rightarrow> False | Some us \<Rightarrow> v \<in> set us)
     = ((case m of None \<Rightarrow> False | Some us \<Rightarrow> v \<in> set us) \<and> v \<noteq> u)"
  by (auto simp: without_def set_delete_def removeAll_Nil_iff split: option.splits)

lemma remove_room_user_roomUsers:
  "roomUsers (remove_room_user u r st) = (roomUsers st)(r := without u (roomUsers st r))"
  by (auto simp: remove_room_user_def without_def split: option.splits)

lemma leave_all_fields [simp]:
  "sockets (fst (leave_all e sid u rs st)) = sockets st"
  "io_rooms (fst (leave_all e sid u rs st)) = io_rooms st"
  "connectedUsers (fst (leave_all e sid u rs st)) = connectedUsers st"
  "userRooms (fst (leave_all e sid u rs st)) = userRooms st"
  "users (fst (leave_all e sid u rs st)) = users st"
  "messages (fst (leave_all e sid u rs st)) = messages st"
  by (induction rs arbitrary: st; simp add: Let_def)+

lemma leave_all_roomUsers:
  "roomUsers (fst (leave_all e sid u rs st)) r =
     (if r \<in> set rs then without u (roomUsers st r) else roomUsers st r)"
  by (induction rs arbitrary: st) (auto simp: Let_def remove_room_user_roomUsers)

lemma leave_all_effects:
  "snd (leave_all e sid u rs st) =
     concat (map (\<lambda>r. socket_to st sid r (User_left_room r u (now e))) rs)"
  by (induction rs arbitrary: st) (auto simp: Let_def socket_to_def)

lemma disconnect_fields:
  "sockets (fst (disconnect e sid u st)) = (sockets st)(sid := None)"
  "io_rooms (fst (disconnect e sid u st)) = (\<lambda>r. set_delete sid (io_rooms st r))"
  "connectedUsers (fst (disconnect e sid u st)) = (connectedUsers st)(u := None)"
  by (auto simp: disconnect_def Let_def split: option.splits)

lemma disconnect_roomUsers:
  "roomUsers (fst (disconnect e sid u st)) q =
     (case userRooms st u of
        None \<Rightarrow> roomUsers st q
      | Some rs \<Rightarrow> if q \<in> set rs then without u (roomUsers st q) else roomUsers st q)"
  by (simp add: disconnect_def Let_def leave_all_roomUsers split: option.splits)

lemma disconnect_userRooms:
  "userRooms (fst (disconnect e sid u st)) = (userRooms st)(u := None)"
  by (auto simp: disconnect_def Let_def split: option.splits)

lemma removeAll_set_delete [simp]: "removeAll x (set_delete x xs) = removeAll x xs"
  by (simp add: set_delete_def)

lemma disconnect_effects:
  "filter is_emit (snd (disconnect e sid u st)) =
     (case userRooms st u of
        None \<Rightarrow> []
      | Some rs \<Rightarrow> concat (map (\<lambda>r. map (\<lambda>s. Emit s (User_left_room r u (now e)))
                                     (removeAll sid (io_rooms st r))) rs))"
proof -
  have "filter is_emit (concat (map (\<lambda>r. map (\<lambda>s. Emit s (User_left_room r u (now e)))
                                     (removeAll sid (io_rooms st r))) rs)) =
        concat (map (\<lambda>r. map (\<lambda>s. Emit s (User_left_room r u (now e)))
                                     (removeAll sid (io_rooms st r))) rs)" for rs
    by (induction rs) (auto simp: filter_map comp_def)
  then show ?thesis
    by (simp add: disconnect_def Let_def leave_all_effects socket_to_def split: option.splits)
qed

subsection \<open>Preservation of the presence invariant\<close>

lemma connection_presence_inv:
  "presence_inv st \<Longrightarrow> presence_inv (fst (connection sid uid st))"
  by (auto simp: connection_def presence_inv_def in_room_def has_room_def socket_join_def Let_def
      split: option.splits)

lemma join_room_maps:
  "(roomUsers (fst (join_room e sid d st)) = roomUsers st \<and>
    userRooms (fst (join_room e sid d st)) = userRooms st) \<or>
   (\<exists>rs. userRooms st (rd_userId d) = Some rs \<and>
      userRooms (fst (join_room e sid d st)) =
        (userRooms st)(rd_userId d \<mapsto> set_add (rd_requestId d) rs) \<and>
      roomUsers (fst (join_room e sid d st)) =
        (roomUsers st)(rd_requestId d \<mapsto>
          set_add (rd_userId d) (case roomUsers st (rd_requestId d) of None \<Rightarrow> [] | Some us \<Rightarrow> us)))"
  by (simp add: join_room_def Let_def socket_join_def split: option.splits)

lemma join_room_presence_inv:
  assumes "presence_inv st"
  shows "presence_inv (fst (join_room e sid d st))"
proof -
  let ?u = "rd_userId d" and ?r = "rd_requestId d"
  let ?st' = "fst (join_room e sid d st)"
  from join_room_maps [of e sid d st] show ?thesis
  proof
    assume "roomUsers ?st' = roomUsers st \<and> userRooms ?st' = userRooms st"
    with assms show ?thesis by (simp add: presence_inv_def in_room_def has_room_def)
  next
    assume "\<exists>rs. userRooms st ?u = Some rs \<and>
      userRooms ?st' = (userRooms st)(?u \<mapsto> set_add ?r rs) \<and>
      roomUsers ?st' = (roomUsers st)(?r \<mapsto>
          set_add ?u (case roomUsers st ?r of None \<Rightarrow> [] | Some us \<Rightarrow> us))"
    then obtain rs where rs: "userRooms st ?u = Some rs"
      and ur: "userRooms ?st' = (userRooms st)(?u \<mapsto> set_add ?r rs)"
      and ru: "roomUsers ?st' = (roomUsers st)(?r \<mapsto>
          set_add ?u (case roomUsers st ?r of None \<Rightarrow> [] | Some us \<Rightarrow> us))"
      by blast
    have i: "in_room ?st' v q = (in_room st v q \<or> (v = ?u \<and> q = ?r))" for v q
      by (auto simp: in_room_def ru split: option.splits)
    have h: "has_room ?st' v q = (has_room st v q \<or> (v = ?u \<and> q = ?r))" for v q
      using rs by (auto simp: has_room_def ur split: option.splits)
    have n: "roomUsers ?st' q \<noteq> Some []" for q
      using assms by (simp add: presence_inv_def ru)
    from assms i h n show ?thesis by (simp add: presence_inv_def)
  qed
qed

lemma leave_room_roomUsers:
  "roomUsers (fst (leave_room e sid d st)) =
     (roomUsers st)(rd_requestId d := without (rd_userId d) (roomUsers st (rd_requestId d)))"
  by (simp add: leave_room_def Let_def remove_room_user_roomUsers socket_leave_def
      split: option.splits)

lemma leave_room_userRooms:
  "userRooms (fst (leave_room e sid d st)) =
     (case userRooms st (rd_userId d) of
        None \<Rightarrow> userRooms st
      | Some rs \<Rightarrow> (userRooms st)(rd_userId d \<mapsto> set_delete (rd_requestId d) rs))"
  by (simp add: leave_room_def Let_def socket_leave_def split: option.splits)

lemma leave_room_presence_inv:
  assumes "presence_inv st"
  shows "presence_inv (fst (leave_room e sid d st))"
proof -
  let ?u = "rd_userId d" and ?r = "rd_requestId d"
  let ?st' = "fst (leave_room e sid d st)"
  have i: "in_room ?st' v q = (in_room st v q \<and> \<not> (v = ?u \<and> q = ?r))" for v q
    by (auto simp: in_room_def leave_room_roomUsers in_room_without)
  have h: "has_room ?st' v q = (has_room st v q \<and> \<not> (v = ?u \<and> q = ?r))" for v q
    by (auto simp: has_room_def leave_room_userRooms set_delete_def split: option.splits)
  have n: "roomUsers ?st' q \<noteq> Some []" for q
    using assms by (simp add: presence_inv_def leave_room_roomUsers without_not_empty)
  from assms i h n show ?thesis by (simp add: presence_inv_def)
qed

lemma disconnect_presence_inv:
  assumes "presence_inv st"
  shows "presence_inv (fst (disconnect e sid u st))"
proof (cases "userRooms st u")
  case None
  let ?st' = "fst (disconnect e sid u st)"
  from None have "roomUsers ?st' = roomUsers st" "userRooms ?st' = userRooms st"
    by (auto simp: disconnect_roomUsers disconnect_userRooms)
  with assms show ?thesis
    by (simp add: presence_inv_def in_room_def has_room_def)
next
  case (Some rs)
  let ?st' = "fst (disconnect e sid u st)"
  have i: "in_room ?st' v q = (in_room st v q \<and> \<not> (v = u \<and> q \<in> set rs))" for v q
    using Some by (auto simp: in_room_def disconnect_roomUsers in_room_without)
  have h: "has_room ?st' v q = (has_room st v q \<and> v \<noteq> u)" for v q
    by (auto simp: has_room_def disconnect_userRooms)
  have n: "roomUsers ?st' q \<noteq> Some []" for q
    using Some assms by (simp add: presence_inv_def disconnect_roomUsers without_not_empty)
  have m: "has_room st u q = (q \<in> set rs)" for q
    using Some by (simp add: has_room_def)
  from assms i h n m show ?thesis by (auto simp: presence_inv_def)
qed

lemma other_presence:
  "roomUsers (fst (send_message e sid uid m st)) = roomUsers st"
  "userRooms (fst (send_message e sid uid m st)) = userRooms st"
  "roomUsers (fst (typing e sid t st)) = roomUsers st"
  "userRooms (fst (typing e sid t st)) = userRooms st"
  "roomUsers (fst (post_request e token b st)) = roomUsers st"
  "userRooms (fst (post_request e token b st)) = userRooms st"
  "roomUsers (fst (post_accept e token rid st)) = roomUsers st"
  "userRooms (fst (post_accept e token rid st)) = userRooms st"
  "roomUsers (fst (post_complete e token rid st)) = roomUsers st"
  "userRooms (fst (post_complete e token rid st)) = userRooms st"
  "roomUsers (fst (post_message e token m st)) = roomUsers st"
  "userRooms (fst (post_message e token m st)) = userRooms st"
  by (auto simp: send_message_def typing_def post_request_def post_accept_def post_complete_def
      post_message_def Let_def split: option.splits sum.splits if_splits)

lemma presence_inv_cong:
  "roomUsers st' = roomUsers st \<Longrightarrow> userRooms st' = userRooms st \<Longrightarrow>
   presence_inv st \<Longrightarrow> presence_inv st'"
  by (simp add: presence_inv_def in_room_def has_room_def)

lemma step_presence_inv: "presence_inv st \<Longrightarrow> presence_inv (fst (step e a st))"
  by (cases a)
     (auto simp: connection_presence_inv join_room_presence_inv leave_room_presence_inv
        disconnect_presence_inv other_presence
        intro: presence_inv_cong [of _ st] split: option.splits)

lemma reachable_presence_inv: "reachable st \<Longrightarrow> presence_inv st"
proof (induction rule: reachable.induct)
  case (reachable_initial st)
  then show ?case by (simp add: initial_def presence_inv_def in_room_def has_room_def)
next
  case (reachable_step st e a)
  then show ?case by (simp add: step_presence_inv)
qed

text \<open>
  Claim C9. In every server reached from an initial one by any sequence of events, and
  after any further handler on it (connection, join_room, leave_room, disconnect or any
  other, with any \<open>userId\<close> in the payload): a user is in the member set of a room in
  \<open>roomUsers\<close> if and only if the room is in the user's set in \<open>userRooms\<close>, and
  \<open>roomUsers\<close> maps no room to the empty set.
\<close>

theorem presence_invariant:
  assumes "reachable st"
  shows "presence_inv st \<and> (\<forall>e a. presence_inv (fst (step e a st)))"
proof
  from assms show inv: "presence_inv st" by (rule reachable_presence_inv)
  show "\<forall>e a. presence_inv (fst (step e a st))"
  proof (intro allI)
    fix e a
    from inv show "presence_inv (fst (step e a st))" by (rule step_presence_inv)
  qed
qed

text \<open>
  C9 on the concrete server: with Alice and Bob in the room, Alice's socket sends
  \<open>leave_room\<close> with Bob's identifier in the payload. Bob leaves both maps together.
\<close>

theorem presence_invariant_witness:
  "reachable st_chat \<and>
   presence_inv (fst (step env0 (Leave_room ''s1'' \<lparr>rd_requestId = room1, rd_userId = bob\<rparr>) st_chat)) \<and>
   roomUsers (fst (step env0 (Leave_room ''s1'' \<lparr>rd_requestId = room1, rd_userId = bob\<rparr>) st_chat)) room1
     = Some [alice] \<and>
   userRooms (fst (step env0 (Leave_room ''s1'' \<lparr>rd_requestId = room1, rd_userId = bob\<rparr>) st_chat)) bob
     = Some []"
proof -
  have f: "roomUsers (fst (step env0 (Leave_room ''s1'' \<lparr>rd_requestId = room1, rd_userId = bob\<rparr>) st_chat)) room1
     = Some [alice]"
    "userRooms (fst (step env0 (Leave_room ''s1'' \<lparr>rd_requestId = room1, rd_userId = bob\<rparr>) st_chat)) bob
     = Some []"
    by (simp_all add: st_chat_def handler_defs data_defs)
  from presence_invariant [OF reachable_st_chat]
  have p: "presence_inv (fst (step env0 (Leave_room ''s1'' \<lparr>rd_requestId = room1, rd_userId = bob\<rparr>) st_chat))"
    by blast
  from p reachable_st_chat f show ?thesis by blast
qed

section \<open>The gateway handlers\<close>

subsection \<open>disconnect\<close>

text \<open>
  Claim C5. When the socket \<open>sid\<close> of user \<open>u\<close> disconnects: \<open>u\<close> has no entry in
  \<open>connectedUsers\<close> and none in \<open>userRooms\<close> afterwards; for every room \<open>r\<close> of the set
  \<open>userRooms\<close> held for \<open>u\<close>, \<open>u\<close> is no member of \<open>roomUsers(r)\<close> afterwards, the entry
  being the old set without \<open>u\<close>, or deleted when that is empty; and a \<open>user_left_room\<close>
  event with the room, \<open>u\<close> and the time goes to every other connection of the room's
  connection group. These are all the events the handler emits, room by room.
\<close>

theorem disconnect_cleanup:
  assumes "sockets st sid = Some u"
  shows "connectedUsers (fst (step e (Disconnect sid) st)) u = None \<and>
         userRooms (fst (step e (Disconnect sid) st)) u = None \<and>
         (\<forall>rs. userRooms st u = Some rs \<longrightarrow>
            (\<forall>r \<in> set rs.
               \<not> in_room (fst (step e (Disconnect sid) st)) u r \<and>
               roomUsers (fst (step e (Disconnect sid) st)) r =
                 (case roomUsers st r of
                    None \<Rightarrow> None
                  | Some us \<Rightarrow> if set_delete u us = [] then None else Some (set_delete u us)) \<and>
               (\<forall>s \<in> set (io_rooms st r). s \<noteq> sid \<longrightarrow>
                  Emit s (User_left_room r u (now e)) \<in> set (snd (step e (Disconnect sid) st)))) \<and>
            filter is_emit (snd (step e (Disconnect sid) st)) =
              concat (map (\<lambda>r. map (\<lambda>s. Emit s (User_left_room r u (now e)))
                                  (removeAll sid (io_rooms st r))) rs))"
proof -
  let ?r = "disconnect e sid u st"
  have s: "step e (Disconnect sid) st = ?r" using assms by simp
  have a: "connectedUsers (fst ?r) u = None" by (simp add: disconnect_fields)
  have b: "userRooms (fst ?r) u = None" by (simp add: disconnect_userRooms)
  have c: "roomUsers (fst ?r) r =
        (case roomUsers st r of
           None \<Rightarrow> None
         | Some us \<Rightarrow> if set_delete u us = [] then None else Some (set_delete u us))"
    if "userRooms st u = Some rs" "r \<in> set rs" for rs r
    using that by (simp add: disconnect_roomUsers without_def)
  have d: "\<not> in_room (fst ?r) u r" if "userRooms st u = Some rs" "r \<in> set rs" for rs r
    using that by (simp add: in_room_def disconnect_roomUsers in_room_without)
  have f: "filter is_emit (snd ?r) =
              concat (map (\<lambda>r. map (\<lambda>s. Emit s (User_left_room r u (now e)))
                                  (removeAll sid (io_rooms st r))) rs)"
    if "userRooms st u = Some rs" for rs
    using that by (simp add: disconnect_effects)
  have g: "Emit s (User_left_room r u (now e)) \<in> set (snd ?r)"
    if "userRooms st u = Some rs" "r \<in> set rs" "s \<in> set (io_rooms st r)" "s \<noteq> sid" for rs r s
  proof -
    from that have "Emit s (User_left_room r u (now e)) \<in> set (filter is_emit (snd ?r))"
      by (auto simp: f [OF that(1)])
    then show ?thesis by simp
  qed
  from a b c d f g show ?thesis unfolding s by blast
qed

text \<open>
  C5 on the concrete server: Alice's socket disconnects while Bob is in the room. Alice
  leaves the registry and the room, and Bob's socket gets the one \<open>user_left_room\<close>.
\<close>

theorem disconnect_cleanup_witness:
  "sockets st_chat ''s1'' = Some alice \<and>
   connectedUsers (fst (step env0 (Disconnect ''s1'') st_chat)) alice = None \<and>
   userRooms (fst (step env0 (Disconnect ''s1'') st_chat)) alice = None \<and>
   roomUsers (fst (step env0 (Disconnect ''s1'') st_chat)) room1 = Some [bob] \<and>
   filter is_emit (snd (step env0 (Disconnect ''s1'') st_chat)) =
     [Emit ''s2'' (User_left_room room1 alice 1000)]"
proof -
  have h: "sockets st_chat ''s1'' = Some alice" by (simp add: st_chat_def)
  have u: "userRooms st_chat alice = Some [room1]" by (simp add: st_chat_def)
  have r: "roomUsers st_chat room1 = Some [alice, bob]" by (simp add: st_chat_def)
  have i: "io_rooms st_chat room1 = [''s1'', ''s2'']" by (simp add: st_chat_def data_defs)
  have n: "now env0 = 1000" by (simp add: env0_def)
  have ab: "alice \<noteq> bob" by (simp add: alice_def bob_def)
  from disconnect_cleanup [OF h, of env0] h u r i n ab show ?thesis
    by (simp add: set_delete_def)
qed

text \<open>
  Claim C10. In a reachable server where user \<open>u\<close> has two live sockets \<open>s1\<close> and \<open>s2\<close>
  and the registry holds \<open>s2\<close> for \<open>u\<close> (the second connection overwrote the entry): when
  \<open>s1\<close> disconnects, \<open>s2\<close> stays a live socket of \<open>u\<close> and stays in every socket.io room
  it was in, but \<open>u\<close> has no entry in \<open>connectedUsers\<close> and none in \<open>userRooms\<close>, and is
  in no room's member set.
\<close>

theorem stale_disconnect_unregisters_live_connection:
  assumes "reachable st"
    and "sockets st s1 = Some u" and "sockets st s2 = Some u" and "s1 \<noteq> s2"
    and "connectedUsers st u = Some s2"
  shows "sockets (fst (step e (Disconnect s1) st)) s2 = Some u \<and>
         connectedUsers (fst (step e (Disconnect s1) st)) u = None \<and>
         userRooms (fst (step e (Disconnect s1) st)) u = None \<and>
         (\<forall>r. \<not> in_room (fst (step e (Disconnect s1) st)) u r) \<and>
         (\<forall>r. s2 \<in> set (io_rooms st r) \<longrightarrow> s2 \<in> set (io_rooms (fst (step e (Disconnect s1) st)) r))"
proof -
  let ?st' = "fst (disconnect e s1 u st)"
  have s: "step e (Disconnect s1) st = disconnect e s1 u st" using assms(2) by simp
  have inv: "presence_inv st" using assms(1) by (rule reachable_presence_inv)
  have a: "sockets ?st' s2 = Some u" using assms(3,4) by (simp add: disconnect_fields)
  have b: "connectedUsers ?st' u = None" by (simp add: disconnect_fields)
  have c: "userRooms ?st' u = None" by (simp add: disconnect_userRooms)
  have "presence_inv ?st'" using inv by (rule disconnect_presence_inv)
  with c have d: "\<not> in_room ?st' u r" for r by (simp add: presence_inv_def has_room_def)
  have f: "s2 \<in> set (io_rooms ?st' r)" if "s2 \<in> set (io_rooms st r)" for r
    using that assms(4) by (simp add: disconnect_fields set_delete_def)
  from a b c d f show ?thesis unfolding s by blast
qed

text \<open>
  C10 on the concrete server: Alice's second socket \<open>s2\<close> joins the room too, then her
  first socket \<open>s1\<close> disconnects. \<open>s2\<close> is live and in the room's connection group, and
  Alice is in neither presence map nor in the registry.
\<close>

theorem stale_disconnect_witness:
  "reachable (fst (step env0 (Join_room ''s2'' \<lparr>rd_requestId = room1, rd_userId = alice\<rparr>) st_tabs)) \<and>
   io_rooms (fst (step env0 (Join_room ''s2'' \<lparr>rd_requestId = room1, rd_userId = alice\<rparr>) st_tabs)) room1
     = [''s1'', ''s2''] \<and>
   connectedUsers (fst (step env0 (Join_room ''s2'' \<lparr>rd_requestId = room1, rd_userId = alice\<rparr>) st_tabs)) alice
     = Some ''s2'' \<and>
   sockets (fst (step env0 (Disconnect ''s1'')
     (fst (step env0 (Join_room ''s2'' \<lparr>rd_requestId = room1, rd_userId = alice\<rparr>) st_tabs)))) ''s2''
     = Some alice \<and>
   connectedUsers (fst (step env0 (Disconnect ''s1'')
     (fst (step env0 (Join_room ''s2'' \<lparr>rd_requestId = room1, rd_userId = alice\<rparr>) st_tabs)))) alice
     = None \<and>
   userRooms (fst (step env0 (Disconnect ''s1'')
     (fst (step env0 (Join_room ''s2'' \<lparr>rd_requestId = room1, rd_userId = alice\<rparr>) st_tabs)))) alice
     = None \<and>
   \<not> in_room (fst (step env0 (Disconnect ''s1'')
     (fst (step env0 (Join_room ''s2'' \<lparr>rd_requestId = room1, rd_userId = alice\<rparr>) st_tabs)))) alice room1 \<and>
   ''s2'' \<in> set (io_rooms (fst (step env0 (Disconnect ''s1'')
     (fst (step env0 (Join_room ''s2'' \<lparr>rd_requestId = room1, rd_userId = alice\<rparr>) st_tabs)))) room1)"
proof -
  let ?st = "fst (step env0 (Join_room ''s2'' \<lparr>rd_requestId = room1, rd_userId = alice\<rparr>) st_tabs)"
  have r: "reachable ?st" by (rule reachable_step [OF reachable_st_tabs])
  have h1: "sockets ?st ''s1'' = Some alice" and h2: "sockets ?st ''s2'' = Some alice"
    and h4: "connectedUsers ?st alice = Some ''s2''"
    and i: "io_rooms ?st room1 = [''s1'', ''s2'']"
    by (simp_all add: st_tabs_def handler_defs data_defs)
  have h3: "''s1'' \<noteq> ''s2''" by simp
  from stale_disconnect_unregisters_live_connection [OF r h1 h2 h3 h4, of env0] r i h4
  show ?thesis by simp
qed

subsection \<open>join_room\<close>



subsection \<open>send_message\<close>

lemma filter_message_io_to [simp]:
  "filter is_message_emit (io_to st r (Message_event m)) = io_to st r (Message_event m)"
  by (simp add: io_to_def filter_map comp_def)

lemma notify_one:
  "filter is_message_emit
     (if b then (case c of None \<Rightarrow> [] | Some x \<Rightarrow> [Emit x (Notification_event r t n w)]) else []) = []"
  by (cases b; cases c; simp)

lemma filter_message_notify_each:
  "filter is_message_emit (concat (map (\<lambda>userId.
      if userId \<noteq> s
      then (case connectedUsers st userId of
              None \<Rightarrow> []
            | Some c \<Rightarrow> [Emit c (Notification_event r t n w)])
      else []) us)) = []"
  by (induction us) (simp_all add: notify_one)

lemma filter_message_notifications [simp]:
  "filter is_message_emit (notifications e r s n st) = []"
  by (cases "roomUsers st r") (simp_all add: notifications_def filter_message_notify_each)

lemma filter_message_socket_to_joined [simp]:
  "filter is_message_emit (socket_to st sid r (User_joined_room a b c)) = []"
  by (simp add: socket_to_def filter_map comp_def)

text \<open>
  Claim C1, as the code has it. A \<open>send_message\<close> event that succeeds (the sender's User
  document is found and the save is taken) appends exactly one row to the Message
  collection, with the given request, sender, content, message type and file metadata and
  \<open>isRead = false\<close>; and the \<open>message\<close> events it emits are one for each connection in the
  room's connection group at that time (\<open>io.to(requestId)\<close>: the sockets that joined the
  room and have not left), each carrying the full message with the identifier of the saved
  row. The sender's connection gets it when it is in the group. No \<open>join_room\<close> emits a
  \<open>message\<close> event, so a connection that joins later does not get it.
\<close>

theorem send_message_broadcast:
  assumes "\<not> db_rejects e Find_user"
    and "users st senderId = Some u"
    and "\<not> db_rejects e Save_message"
  shows "messages (fst (send_message e sid senderId d st)) =
           messages st @ [\<lparr>mid = fresh_id e, request = md_requestId d, sender = senderId,
             content = md_content d, messageType = message_type_or_text (md_messageType d),
             fileName = md_fileName d, fileSize = md_fileSize d, isRead = False\<rparr>] \<and>
         filter is_message_emit (snd (send_message e sid senderId d st)) =
           map (\<lambda>s. Emit s (Message_event
             \<lparr>msg_id = fresh_id e, msg_requestId = md_requestId d, msg_senderId = senderId,
              msg_senderName = name u, msg_senderPicture = picture u,
              msg_content = md_content d,
              msg_messageType = message_type_or_text (md_messageType d),
              msg_fileName = md_fileName d, msg_fileSize = md_fileSize d,
              msg_createdAt = now e, msg_isRead = False\<rparr>)) (io_rooms st (md_requestId d)) \<and>
         (\<forall>e' s' d' st'. filter is_message_emit (snd (join_room e' s' d' st')) = [])"
  using assms
  by (auto simp: send_message_def join_room_def Let_def io_to_def split: option.splits)

text \<open>
  C1 on the concrete server: Alice sends "hello" from her socket with Bob in the room. One
  row is saved and both sockets of the room get the message, Alice's own included.
\<close>

theorem send_message_broadcast_witness:
  "users st_chat alice = Some \<lparr>name = ''Alice'', email = ''alice@example.org'', picture = []\<rparr> \<and>
   messages (fst (send_message env1 ''s1'' alice hello st_chat)) = [hello_row] \<and>
   filter is_message_emit (snd (send_message env1 ''s1'' alice hello st_chat)) =
     [Emit ''s1'' (Message_event hello_message), Emit ''s2'' (Message_event hello_message)]"
proof -
  have h1: "\<not> db_rejects env1 Find_user" by (simp add: env1_def env0_def)
  have h2: "users st_chat alice = Some \<lparr>name = ''Alice'', email = ''alice@example.org'', picture = []\<rparr>"
    by (simp add: st_chat_def st0_def alice_def bob_def)
  have h3: "\<not> db_rejects env1 Save_message" by (simp add: env1_def env0_def)
  from send_message_broadcast [OF h1 h2 h3, of "''s1''" hello] h2 show ?thesis
    by (simp add: st_chat_def data_defs message_type_or_text_def)
qed

text \<open>
  Claim C1, as it is stated, fails. Alice joins the room on her socket \<open>s1\<close> and opens a
  second connection \<open>s2\<close>, which the registry now holds for her. She is in the room's
  member set, \<open>s2\<close> is her registered connection and the sender of the message; the
  message is saved, and the only \<open>message\<close> event goes to \<open>s1\<close>: the sender's own
  connection gets none.
\<close>

theorem send_message_member_set_counterexample:
  "roomUsers (fst (run second_tab_trace st0)) room1 = Some [alice] \<and>
   connectedUsers (fst (run second_tab_trace st0)) alice = Some ''s2'' \<and>
   sockets (fst (run second_tab_trace st0)) ''s2'' = Some alice \<and>
   messages (fst (step env1 (Send_message ''s2'' hello) (fst (run second_tab_trace st0)))) = [hello_row] \<and>
   filter is_message_emit (snd (step env1 (Send_message ''s2'' hello) (fst (run second_tab_trace st0))))
     = [Emit ''s1'' (Message_event hello_message)] \<and>
   Emit ''s2'' (Message_event hello_message)
     \<notin> set (snd (step env1 (Send_message ''s2'' hello) (fst (run second_tab_trace st0))))"
  unfolding run_second_tab_trace
  by (simp add: st_tabs_def handler_defs data_defs)

text \<open>
  Claim C7. A \<open>send_message\<close> event whose save is rejected (the sender's User document
  having been found) leaves the server as it was; the only event it emits is \<open>error\<close>,
  "Failed to send message", to the sender's socket; everything else it does is console
  lines. No \<open>message\<close> and no \<open>notification\<close> goes to anyone.
\<close>

theorem send_message_write_failure:
  assumes "\<not> db_rejects e Find_user"
    and "users st senderId = Some u"
    and "db_rejects e Save_message"
  shows "fst (send_message e sid senderId d st) = st \<and>
         filter is_emit (snd (send_message e sid senderId d st)) =
           [Emit sid (Error_event ''Failed to send message'')] \<and>
         list_all is_console (filter (\<lambda>x. \<not> is_emit x) (snd (send_message e sid senderId d st)))"
  using assms by (simp add: send_message_def Let_def)

text \<open>
  C7 on the concrete server: the save of Alice's message is rejected with Bob in the
  room. The server is unchanged and the one event is the error to Alice's socket.
\<close>

theorem send_message_write_failure_witness:
  "db_rejects env_db_down Save_message \<and>
   fst (send_message env_db_down ''s1'' alice hello st_chat) = st_chat \<and>
   filter is_emit (snd (send_message env_db_down ''s1'' alice hello st_chat)) =
     [Emit ''s1'' (Error_event ''Failed to send message'')]"
proof -
  have h1: "\<not> db_rejects env_db_down Find_user" by (simp add: env_db_down_def)
  have h2: "users st_chat alice = Some \<lparr>name = ''Alice'', email = ''alice@example.org'', picture = []\<rparr>"
    by (simp add: st_chat_def st0_def alice_def bob_def)
  have h3: "db_rejects env_db_down Save_message" by (simp add: env_db_down_def)
  from send_message_write_failure [OF h1 h2 h3, of "''s1''" hello] h3 show ?thesis by simp
qed

end
